theory Spec2Isabelle
  imports Complex_Main "HOL-Library.AList"
begin


section \<open>Soil test recommendation engine (utils.py)\<close>

text \<open>
  The engine of \<^verbatim>\<open>utils.py\<close> reads four measurements of a \<^verbatim>\<open>SoilTest\<close> and builds a
  dictionary of recommendations. It does two things with a measurement: it compares it
  with constants, and it prints it into a message with an f-string. The comparison sees
  the number's value; the f-string sees the number object, so that the int \<^verbatim>\<open>10\<close> and
  the float \<^verbatim>\<open>10.0\<close>, or the floats \<^verbatim>\<open>0.0\<close> and \<^verbatim>\<open>-0.0\<close>, compare equal and print
  differently. The model keeps the two apart.
\<close>

subsection \<open>Python numbers\<close>

text \<open>
  A measurement is an \<^verbatim>\<open>int\<close> or a finite \<^verbatim>\<open>float\<close> (the specification's inputs are
  real numbers). A float is given by its value, and the negative zero, which has the
  value of zero, is an object of its own. Every threshold the code compares against
  (5.0, 5.5, 6.0, 7.5, 8.0 and whole numbers) is a binary fraction, and Python compares
  an int with a float exactly, so a comparison in the code has the outcome of the
  comparison of the values as reals.
\<close>

datatype pynum = PyInt int | PyFloat real | PyNegZero

fun num_val :: "pynum \<Rightarrow> real" where
  "num_val (PyInt i) = of_int i"
| "num_val (PyFloat r) = r"
| "num_val PyNegZero = 0"

text \<open>Python's \<^verbatim>\<open>str\<close> of an \<^verbatim>\<open>int\<close>: decimal digits, with a minus sign when negative.\<close>

definition digit_char :: "nat \<Rightarrow> char" where
  "digit_char d = ''0123456789'' ! (d mod 10)"

fun digits :: "nat \<Rightarrow> string" where
  "digits n = (if n < 10 then [digit_char n] else digits (n div 10) @ [digit_char (n mod 10)])"

declare digits.simps [simp del]

definition str_int :: "int \<Rightarrow> string" where
  "str_int i = (if i < 0 then CHR ''-'' # digits (nat (- i)) else digits (nat i))"

text \<open>
  The text an f-string field \<^verbatim>\<open>{x}\<close> produces for a number. For an int it is \<open>str_int\<close>.
  For a float it is Python's shortest-repr algorithm, which is not part of the
  repository: the digits it prints for a non-negative float are the parameter
  \<open>float_str\<close> of every function that formats a measurement. A float with the sign bit
  set, the negative zero included, prints a minus sign before the digits of its
  magnitude.
\<close>

definition num_str :: "(real \<Rightarrow> string) \<Rightarrow> pynum \<Rightarrow> string" where
  "num_str float_str x =
     (case x of
        PyInt i \<Rightarrow> str_int i
      | PyFloat r \<Rightarrow> if r < 0 then CHR ''-'' # float_str (- r) else float_str r
      | PyNegZero \<Rightarrow> CHR ''-'' # float_str 0)"

subsection \<open>Data model\<close>

text \<open>The class \<^verbatim>\<open>SoilTest\<close> of models.py, field by field.\<close>

record SoilTest =
  id_num :: "int option"
  location :: string
  latitude :: "pynum option"
  longitude :: "pynum option"
  ph :: pynum
  nitrogen :: pynum
  phosphorus :: pynum
  potassium :: pynum
  notes_text :: string
  test_date :: string

text \<open>
  Python dictionaries with string keys are association lists in insertion order. An
  action is a dictionary from strings to strings; the values of the result dictionaries
  are strings, numbers or the list of actions.
\<close>

type_synonym action = "(string \<times> string) list"

datatype pyval = Str string | Num real | Actions "action list"

type_synonym pydict = "(string \<times> pyval) list"

datatype py_error = KeyError string

text \<open>Subscript \<^verbatim>\<open>d[k]\<close>: raises \<^verbatim>\<open>KeyError\<close> on a missing key.\<close>

definition getitem :: "(string \<times> 'v) list \<Rightarrow> string \<Rightarrow> py_error + 'v" where
  "getitem d k = (case map_of d k of None \<Rightarrow> Inl (KeyError k) | Some v \<Rightarrow> Inr v)"

text \<open>Assignment \<^verbatim>\<open>d[k] = v\<close>: replaces the value in place, or appends a new key.\<close>

definition setitem :: "(string \<times> 'v) list \<Rightarrow> string \<Rightarrow> 'v \<Rightarrow> (string \<times> 'v) list" where
  "setitem d k v = AList.update k v d"

subsection \<open>Dosage tables\<close>

text \<open>
  The five dosage functions only compare their argument with constants, so they are
  functions of its value.
\<close>

definition calculate_lime_requirement :: "real \<Rightarrow> int" where
  "calculate_lime_requirement x =
     (if x < 5.0 then 15
      else if x < 5.5 then 12
      else if x < 6.0 then 8
      else 5)"

definition calculate_sulfur_requirement :: "real \<Rightarrow> int" where
  "calculate_sulfur_requirement x =
     (if x > 8.0 then 10
      else if x > 7.5 then 6
      else 3)"

definition calculate_nitrogen_requirement :: "real \<Rightarrow> int" where
  "calculate_nitrogen_requirement n =
     (if n < 10 then 4
      else if n < 20 then 2
      else 1)"

definition calculate_phosphorus_requirement :: "real \<Rightarrow> int" where
  "calculate_phosphorus_requirement p =
     (if p < 5 then 3
      else if p < 15 then 2
      else 1)"

definition calculate_potassium_requirement :: "real \<Rightarrow> int" where
  "calculate_potassium_requirement k =
     (if k < 50 then 4
      else if k < 100 then 3
      else 1)"

subsection \<open>generate_fertilizer_recommendations\<close>

text \<open>
  The function keeps two locals, the dictionary \<^verbatim>\<open>recommendations\<close> and the list
  \<^verbatim>\<open>actions\<close>, and runs five sections in order. Each section is a function on the pair
  of locals.
\<close>

type_synonym locals = "pydict \<times> action list"

definition init_locals :: locals where
  "init_locals =
     ([(''overall'', Str ''''),
       (''ph_recommendation'', Str ''''),
       (''nitrogen_recommendation'', Str ''''),
       (''phosphorus_recommendation'', Str ''''),
       (''potassium_recommendation'', Str ''''),
       (''priority'', Str ''medium''),
       (''actions'', Actions [])],
      [])"

definition mk_action :: "string \<Rightarrow> string \<Rightarrow> string \<Rightarrow> string \<Rightarrow> action" where
  "mk_action ty act amount prio =
     [(''type'', ty), (''action'', act), (''amount'', amount), (''priority'', prio)]"

definition ph_section :: "(real \<Rightarrow> string) \<Rightarrow> SoilTest \<Rightarrow> locals \<Rightarrow> locals" where
  "ph_section float_str soil_test = (\<lambda>(recommendations, actions).
     if num_val (ph soil_test) < 6.0 then
       (setitem
          (setitem recommendations ''ph_recommendation''
             (Str (''Soil is acidic (pH '' @ num_str float_str (ph soil_test) @
                   ''). Apply lime to raise pH to 6.0-7.0 range for optimal nutrient availability.'')))
          ''priority'' (Str ''high''),
        actions @ [mk_action ''pH adjustment'' ''Apply agricultural lime''
                     (str_int (calculate_lime_requirement (num_val (ph soil_test))) @ '' lbs per 1000 sq ft'')
                     ''high''])
     else if num_val (ph soil_test) > 7.5 then
       (setitem
          (setitem recommendations ''ph_recommendation''
             (Str (''Soil is alkaline (pH '' @ num_str float_str (ph soil_test) @
                   ''). Apply sulfur or organic matter to lower pH.'')))
          ''priority'' (Str ''high''),
        actions @ [mk_action ''pH adjustment'' ''Apply elemental sulfur''
                     (str_int (calculate_sulfur_requirement (num_val (ph soil_test))) @ '' lbs per 1000 sq ft'')
                     ''high''])
     else
       (setitem recommendations ''ph_recommendation''
          (Str (''pH level ('' @ num_str float_str (ph soil_test) @ '') is optimal for most crops.'')),
        actions))"

definition nitrogen_section :: "(real \<Rightarrow> string) \<Rightarrow> SoilTest \<Rightarrow> locals \<Rightarrow> locals" where
  "nitrogen_section float_str soil_test = (\<lambda>(recommendations, actions).
     if num_val (nitrogen soil_test) < 20 then
       (setitem recommendations ''nitrogen_recommendation''
          (Str (''Low nitrogen levels ('' @ num_str float_str (nitrogen soil_test) @
                '' ppm). Apply nitrogen-rich fertilizer or compost.'')),
        actions @ [mk_action ''nitrogen'' ''Apply nitrogen fertilizer (21-0-0 or similar)''
                     (str_int (calculate_nitrogen_requirement (num_val (nitrogen soil_test))) @ '' lbs per 1000 sq ft'')
                     ''medium''])
     else if num_val (nitrogen soil_test) > 50 then
       (setitem recommendations ''nitrogen_recommendation''
          (Str (''High nitrogen levels ('' @ num_str float_str (nitrogen soil_test) @
                '' ppm). Reduce nitrogen fertilization to prevent burning and runoff.'')),
        actions @ [mk_action ''nitrogen'' ''Reduce or skip nitrogen fertilization''
                     ''Monitor and test again in 6 months''
                     ''low''])
     else
       (setitem recommendations ''nitrogen_recommendation''
          (Str (''Nitrogen levels ('' @ num_str float_str (nitrogen soil_test) @ '' ppm) are adequate.'')),
        actions))"

definition phosphorus_section :: "(real \<Rightarrow> string) \<Rightarrow> SoilTest \<Rightarrow> locals \<Rightarrow> locals" where
  "phosphorus_section float_str soil_test = (\<lambda>(recommendations, actions).
     if num_val (phosphorus soil_test) < 15 then
       (setitem recommendations ''phosphorus_recommendation''
          (Str (''Low phosphorus levels ('' @ num_str float_str (phosphorus soil_test) @
                '' ppm). Apply phosphorus fertilizer for strong root development.'')),
        actions @ [mk_action ''phosphorus'' ''Apply phosphorus fertilizer (0-46-0 or bone meal)''
                     (str_int (calculate_phosphorus_requirement (num_val (phosphorus soil_test))) @ '' lbs per 1000 sq ft'')
                     ''medium''])
     else if num_val (phosphorus soil_test) > 50 then
       (setitem recommendations ''phosphorus_recommendation''
          (Str (''High phosphorus levels ('' @ num_str float_str (phosphorus soil_test) @
                '' ppm). Avoid phosphorus fertilizers.'')),
        actions @ [mk_action ''phosphorus'' ''Skip phosphorus fertilization''
                     ''Use low or no-phosphorus fertilizers''
                     ''low''])
     else
       (setitem recommendations ''phosphorus_recommendation''
          (Str (''Phosphorus levels ('' @ num_str float_str (phosphorus soil_test) @ '' ppm) are sufficient.'')),
        actions))"

definition potassium_section :: "(real \<Rightarrow> string) \<Rightarrow> SoilTest \<Rightarrow> locals \<Rightarrow> locals" where
  "potassium_section float_str soil_test = (\<lambda>(recommendations, actions).
     if num_val (potassium soil_test) < 100 then
       (setitem recommendations ''potassium_recommendation''
          (Str (''Low potassium levels ('' @ num_str float_str (potassium soil_test) @
                '' ppm). Apply potassium fertilizer for plant health and disease resistance.'')),
        actions @ [mk_action ''potassium'' ''Apply potassium fertilizer (0-0-60 or potash)''
                     (str_int (calculate_potassium_requirement (num_val (potassium soil_test))) @ '' lbs per 1000 sq ft'')
                     ''medium''])
     else if num_val (potassium soil_test) > 300 then
       (setitem recommendations ''potassium_recommendation''
          (Str (''High potassium levels ('' @ num_str float_str (potassium soil_test) @
                '' ppm). Reduce potassium fertilization.'')),
        actions @ [mk_action ''potassium'' ''Reduce potassium fertilization''
                     ''Monitor levels and retest in 12 months''
                     ''low''])
     else
       (setitem recommendations ''potassium_recommendation''
          (Str (''Potassium levels ('' @ num_str float_str (potassium soil_test) @ '' ppm) are adequate.'')),
        actions))"

text \<open>
  The comprehension \<^verbatim>\<open>[a for a in actions if a['priority'] == p]\<close>. The subscript raises
  when an action has no key \<^verbatim>\<open>priority\<close>, and the exception leaves the comprehension.
\<close>

fun actions_with_priority :: "string \<Rightarrow> action list \<Rightarrow> py_error + action list" where
  "actions_with_priority p [] = Inr []"
| "actions_with_priority p (a # as) =
     (case getitem a ''priority'' of
        Inl e \<Rightarrow> Inl e
      | Inr v \<Rightarrow>
          (case actions_with_priority p as of
             Inl e \<Rightarrow> Inl e
           | Inr r \<Rightarrow> Inr (if v = p then a # r else r)))"

definition overall_section :: "locals \<Rightarrow> py_error + pydict" where
  "overall_section = (\<lambda>(recommendations, actions).
     case actions_with_priority ''high'' actions of
       Inl e \<Rightarrow> Inl e
     | Inr high_priority_actions \<Rightarrow>
         (case actions_with_priority ''medium'' actions of
            Inl e \<Rightarrow> Inl e
          | Inr medium_priority_actions \<Rightarrow>
              Inr (setitem
                (if high_priority_actions \<noteq> [] then
                   setitem
                     (setitem recommendations ''overall''
                        (Str ''Immediate attention required for soil pH adjustment. Address pH issues first, then nutrient deficiencies.''))
                     ''priority'' (Str ''high'')
                 else if medium_priority_actions \<noteq> [] then
                   setitem
                     (setitem recommendations ''overall''
                        (Str ''Moderate nutrient deficiencies detected. Apply recommended fertilizers for optimal plant growth.''))
                     ''priority'' (Str ''medium'')
                 else
                   setitem
                     (setitem recommendations ''overall''
                        (Str ''Soil nutrient levels are generally good. Continue regular monitoring and maintenance.''))
                     ''priority'' (Str ''low''))
                ''actions'' (Actions actions))))"

definition generate_fertilizer_recommendations ::
    "(real \<Rightarrow> string) \<Rightarrow> SoilTest \<Rightarrow> py_error + pydict" where
  "generate_fertilizer_recommendations float_str soil_test =
     overall_section
       (potassium_section float_str soil_test
         (phosphorus_section float_str soil_test
           (nitrogen_section float_str soil_test
             (ph_section float_str soil_test init_locals))))"

subsection \<open>analyze_soil_health\<close>

text \<open>
  The score is computed in floats from contributions among 0, 0.4, 0.7 and 1. For each
  of the 256 sequences of four contributions, the float sum divided by 4 and multiplied
  by 100 lies on the same side of 80, 60 and 40 as the exact value, and its rounding to
  one decimal is the float nearest to the exact value; the model computes with the exact
  values.

  Python's \<^verbatim>\<open>round(x, 1)\<close>: the nearest multiple of one tenth, a tie going to the even
  multiple.
\<close>

definition py_round1 :: "real \<Rightarrow> real" where
  "py_round1 x =
     (let y = x * 10; f = \<lfloor>y\<rfloor>; d = y - of_int f
      in of_int (if d < 1 / 2 then f
                 else if d > 1 / 2 then f + 1
                 else if even f then f else f + 1) / 10)"

text \<open>The four scoring sections, each adding to the running \<^verbatim>\<open>health_score\<close>.\<close>

definition ph_score :: "SoilTest \<Rightarrow> real \<Rightarrow> real" where
  "ph_score soil_test health_score =
     (if 6.0 \<le> num_val (ph soil_test) \<and> num_val (ph soil_test) \<le> 7.0 then health_score + 1
      else if 5.5 \<le> num_val (ph soil_test) \<and> num_val (ph soil_test) \<le> 7.5 then health_score + 0.7
      else if 5.0 \<le> num_val (ph soil_test) \<and> num_val (ph soil_test) \<le> 8.0 then health_score + 0.4
      else health_score)"

definition nitrogen_score :: "SoilTest \<Rightarrow> real \<Rightarrow> real" where
  "nitrogen_score soil_test health_score =
     (if 20 \<le> num_val (nitrogen soil_test) \<and> num_val (nitrogen soil_test) \<le> 50 then health_score + 1
      else if 15 \<le> num_val (nitrogen soil_test) \<and> num_val (nitrogen soil_test) \<le> 60 then health_score + 0.7
      else if 10 \<le> num_val (nitrogen soil_test) \<and> num_val (nitrogen soil_test) \<le> 80 then health_score + 0.4
      else health_score)"

definition phosphorus_score :: "SoilTest \<Rightarrow> real \<Rightarrow> real" where
  "phosphorus_score soil_test health_score =
     (if 15 \<le> num_val (phosphorus soil_test) \<and> num_val (phosphorus soil_test) \<le> 50 then health_score + 1
      else if 10 \<le> num_val (phosphorus soil_test) \<and> num_val (phosphorus soil_test) \<le> 60 then health_score + 0.7
      else if 5 \<le> num_val (phosphorus soil_test) \<and> num_val (phosphorus soil_test) \<le> 80 then health_score + 0.4
      else health_score)"

definition potassium_score :: "SoilTest \<Rightarrow> real \<Rightarrow> real" where
  "potassium_score soil_test health_score =
     (if 100 \<le> num_val (potassium soil_test) \<and> num_val (potassium soil_test) \<le> 300 then health_score + 1
      else if 75 \<le> num_val (potassium soil_test) \<and> num_val (potassium soil_test) \<le> 400 then health_score + 0.7
      else if 50 \<le> num_val (potassium soil_test) \<and> num_val (potassium soil_test) \<le> 500 then health_score + 0.4
      else health_score)"

definition health_percentage :: "SoilTest \<Rightarrow> real" where
  "health_percentage soil_test =
     (let health_score = 0;
          total_factors = 4;
          health_score = ph_score soil_test health_score;
          health_score = nitrogen_score soil_test health_score;
          health_score = phosphorus_score soil_test health_score;
          health_score = potassium_score soil_test health_score
      in (health_score / total_factors) * 100)"

definition analyze_soil_health :: "SoilTest \<Rightarrow> pydict" where
  "analyze_soil_health soil_test =
     (let health_percentage = health_percentage soil_test;
          (health_status, health_description) =
             (if health_percentage \<ge> 80 then
                (''Excellent'', ''Your soil is in excellent condition with optimal nutrient levels.'')
              else if health_percentage \<ge> 60 then
                (''Good'', ''Your soil is in good condition with minor adjustments needed.'')
              else if health_percentage \<ge> 40 then
                (''Fair'', ''Your soil needs some attention to improve nutrient levels.'')
              else
                (''Poor'', ''Your soil requires significant improvement in multiple areas.''))
      in [(''score'', Num (py_round1 health_percentage)),
          (''status'', Str health_status),
          (''description'', Str health_description)])"

subsection \<open>Views of the engine used in the proofs\<close>

text \<open>
  The result dictionary always has the same seven keys in the same order; \<open>rec_dict\<close>
  names that shape. The message and the action list of each section are read off the
  section itself, run on the initial locals. \<open>rollup\<close> and \<open>overall_message\<close> are the priority and the
  overall text the last section computes from the action list.
\<close>

definition rec_dict :: "pyval \<Rightarrow> pyval \<Rightarrow> pyval \<Rightarrow> pyval \<Rightarrow> pyval \<Rightarrow> pyval \<Rightarrow> pyval \<Rightarrow> pydict" where
  "rec_dict ov phr nr pr kr prio acts =
     [(''overall'', ov), (''ph_recommendation'', phr), (''nitrogen_recommendation'', nr),
      (''phosphorus_recommendation'', pr), (''potassium_recommendation'', kr),
      (''priority'', prio), (''actions'', acts)]"

definition field_of :: "locals \<Rightarrow> string \<Rightarrow> pyval" where
  "field_of s k = (case getitem (fst s) k of Inr v \<Rightarrow> v | Inl e \<Rightarrow> Str [])"

definition ph_message :: "(real \<Rightarrow> string) \<Rightarrow> SoilTest \<Rightarrow> pyval" where
  "ph_message float_str t = field_of (ph_section float_str t init_locals) ''ph_recommendation''"

definition nitrogen_message :: "(real \<Rightarrow> string) \<Rightarrow> SoilTest \<Rightarrow> pyval" where
  "nitrogen_message float_str t =
     field_of (nitrogen_section float_str t init_locals) ''nitrogen_recommendation''"

definition phosphorus_message :: "(real \<Rightarrow> string) \<Rightarrow> SoilTest \<Rightarrow> pyval" where
  "phosphorus_message float_str t =
     field_of (phosphorus_section float_str t init_locals) ''phosphorus_recommendation''"

definition potassium_message :: "(real \<Rightarrow> string) \<Rightarrow> SoilTest \<Rightarrow> pyval" where
  "potassium_message float_str t =
     field_of (potassium_section float_str t init_locals) ''potassium_recommendation''"

definition ph_actions :: "SoilTest \<Rightarrow> action list" where
  "ph_actions t = snd (ph_section (\<lambda>x. []) t init_locals)"

definition nitrogen_actions :: "SoilTest \<Rightarrow> action list" where
  "nitrogen_actions t = snd (nitrogen_section (\<lambda>x. []) t init_locals)"

definition phosphorus_actions :: "SoilTest \<Rightarrow> action list" where
  "phosphorus_actions t = snd (phosphorus_section (\<lambda>x. []) t init_locals)"

definition potassium_actions :: "SoilTest \<Rightarrow> action list" where
  "potassium_actions t = snd (potassium_section (\<lambda>x. []) t init_locals)"

definition emitted :: "SoilTest \<Rightarrow> action list" where
  "emitted t = ph_actions t @ nitrogen_actions t @ phosphorus_actions t @ potassium_actions t"

definition has_priority :: "string \<Rightarrow> action list \<Rightarrow> bool" where
  "has_priority p as = (\<exists>a \<in> set as. getitem a ''priority'' = Inr p)"

definition overall_message :: "action list \<Rightarrow> string" where
  "overall_message as =
     (if has_priority ''high'' as then
        ''Immediate attention required for soil pH adjustment. Address pH issues first, then nutrient deficiencies.''
      else if has_priority ''medium'' as then
        ''Moderate nutrient deficiencies detected. Apply recommended fertilizers for optimal plant growth.''
      else ''Soil nutrient levels are generally good. Continue regular monitoring and maintenance.'')"

definition rollup :: "action list \<Rightarrow> string" where
  "rollup as = (if has_priority ''high'' as then ''high''
                else if has_priority ''medium'' as then ''medium'' else ''low'')"


subsection \<open>Notions of the specification\<close>

text \<open>
  The severity order of the specification, high above medium above low, and the maximum
  severity of a list of priorities, which is low for the empty list.
\<close>

definition severity :: "string \<Rightarrow> nat" where
  "severity p = (if p = ''high'' then 2 else if p = ''medium'' then 1 else 0)"

definition max_severity :: "string list \<Rightarrow> string" where
  "max_severity ps = fold (\<lambda>q m. if severity m < severity q then q else m) ps ''low''"

text \<open>
  The contribution of one measurement to the health score, as the specification words
  it: 1.0 in the tightest band, 0.7 in the next, 0.4 in the widest, 0 outside all bands.
\<close>

definition contribution ::
    "real \<times> real \<Rightarrow> real \<times> real \<Rightarrow> real \<times> real \<Rightarrow> real \<Rightarrow> real" where
  "contribution tightest next widest x =
     (if fst tightest \<le> x \<and> x \<le> snd tightest then 1.0
      else if fst next \<le> x \<and> x \<le> snd next then 0.7
      else if fst widest \<le> x \<and> x \<le> snd widest then 0.4
      else 0)"

definition status_of :: "real \<Rightarrow> string" where
  "status_of percentage =
     (if percentage \<ge> 80 then ''Excellent''
      else if percentage \<ge> 60 then ''Good''
      else if percentage \<ge> 40 then ''Fair''
      else ''Poor'')"

subsection \<open>Sample inputs\<close>

text \<open>
  Two records with the measurements of the first scenario of the specification and
  different descriptive fields, and a record with given measurements and fixed
  descriptive fields.
\<close>

definition soil_a :: SoilTest where
  "soil_a = \<lparr>id_num = Some 1, location = ''North field'', latitude = Some (PyFloat 45),
      longitude = None,
      ph = PyFloat 5.5, nitrogen = PyFloat 10, phosphorus = PyFloat 10, potassium = PyFloat 50,
      notes_text = ''after rain'', test_date = ''2024-03-01''\<rparr>"

definition soil_b :: SoilTest where
  "soil_b = \<lparr>id_num = None, location = ''South field'', latitude = None,
      longitude = Some (PyInt 7),
      ph = PyFloat 5.5, nitrogen = PyFloat 10, phosphorus = PyFloat 10, potassium = PyFloat 50,
      notes_text = [], test_date = ''2025-11-30''\<rparr>"

definition soil_with :: "pynum \<Rightarrow> pynum \<Rightarrow> pynum \<Rightarrow> pynum \<Rightarrow> SoilTest" where
  "soil_with x n p k = \<lparr>id_num = None, location = ''Plot'', latitude = None, longitude = None,
      ph = x, nitrogen = n, phosphorus = p, potassium = k,
      notes_text = [], test_date = ''2024-01-01''\<rparr>"

section \<open>Supporting lemmas\<close>

lemma setitem_Cons:
  "setitem ((k, v) # d) k' v' = (if k = k' then (k, v') # d else (k, v) # setitem d k' v')"
  by (simp add: setitem_def)

lemma getitem_Cons: "getitem ((k, v) # d) k' = (if k = k' then Inr v else getitem d k')"
  by (simp add: getitem_def)

lemma getitem_Nil: "getitem [] k = Inl (KeyError k)"
  by (simp add: getitem_def)

lemma setitem_rec_dict:
  "setitem (rec_dict ov phr nr pr kr prio acts) ''overall'' v = rec_dict v phr nr pr kr prio acts"
  "setitem (rec_dict ov phr nr pr kr prio acts) ''ph_recommendation'' v = rec_dict ov v nr pr kr prio acts"
  "setitem (rec_dict ov phr nr pr kr prio acts) ''nitrogen_recommendation'' v = rec_dict ov phr v pr kr prio acts"
  "setitem (rec_dict ov phr nr pr kr prio acts) ''phosphorus_recommendation'' v = rec_dict ov phr nr v kr prio acts"
  "setitem (rec_dict ov phr nr pr kr prio acts) ''potassium_recommendation'' v = rec_dict ov phr nr pr v prio acts"
  "setitem (rec_dict ov phr nr pr kr prio acts) ''priority'' v = rec_dict ov phr nr pr kr v acts"
  "setitem (rec_dict ov phr nr pr kr prio acts) ''actions'' v = rec_dict ov phr nr pr kr prio v"
  by (simp_all add: rec_dict_def setitem_Cons)

lemma getitem_rec_dict:
  "getitem (rec_dict ov phr nr pr kr prio acts) ''overall'' = Inr ov"
  "getitem (rec_dict ov phr nr pr kr prio acts) ''ph_recommendation'' = Inr phr"
  "getitem (rec_dict ov phr nr pr kr prio acts) ''nitrogen_recommendation'' = Inr nr"
  "getitem (rec_dict ov phr nr pr kr prio acts) ''phosphorus_recommendation'' = Inr pr"
  "getitem (rec_dict ov phr nr pr kr prio acts) ''potassium_recommendation'' = Inr kr"
  "getitem (rec_dict ov phr nr pr kr prio acts) ''priority'' = Inr prio"
  "getitem (rec_dict ov phr nr pr kr prio acts) ''actions'' = Inr acts"
  by (simp_all add: rec_dict_def getitem_Cons)

lemma rec_dict_inj:
  "rec_dict a b c d e f g = rec_dict a' b' c' d' e' f' g' \<longleftrightarrow>
     a = a' \<and> b = b' \<and> c = c' \<and> d = d' \<and> e = e' \<and> f = f' \<and> g = g'"
  by (auto simp: rec_dict_def)

lemma init_locals_rec_dict:
  "init_locals =
     (rec_dict (Str []) (Str []) (Str []) (Str []) (Str []) (Str ''medium'') (Actions []), [])"
  by (simp add: init_locals_def rec_dict_def)

lemma ph_section_rec:
  "ph_section fmt t (rec_dict ov phr nr pr kr prio acts, as) =
     (rec_dict ov (ph_message fmt t) nr pr kr
        (if num_val (ph t) < 6 \<or> num_val (ph t) > 7.5 then Str ''high'' else prio) acts,
      as @ ph_actions t)"
  by (simp add: ph_section_def ph_message_def ph_actions_def field_of_def init_locals_rec_dict
        setitem_rec_dict getitem_rec_dict rec_dict_inj)

lemma nitrogen_section_rec:
  "nitrogen_section fmt t (rec_dict ov phr nr pr kr prio acts, as) =
     (rec_dict ov phr (nitrogen_message fmt t) pr kr prio acts, as @ nitrogen_actions t)"
  by (simp add: nitrogen_section_def nitrogen_message_def nitrogen_actions_def field_of_def
        init_locals_rec_dict setitem_rec_dict getitem_rec_dict rec_dict_inj)

lemma phosphorus_section_rec:
  "phosphorus_section fmt t (rec_dict ov phr nr pr kr prio acts, as) =
     (rec_dict ov phr nr (phosphorus_message fmt t) kr prio acts, as @ phosphorus_actions t)"
  by (simp add: phosphorus_section_def phosphorus_message_def phosphorus_actions_def field_of_def
        init_locals_rec_dict setitem_rec_dict getitem_rec_dict rec_dict_inj)

lemma potassium_section_rec:
  "potassium_section fmt t (rec_dict ov phr nr pr kr prio acts, as) =
     (rec_dict ov phr nr pr (potassium_message fmt t) prio acts, as @ potassium_actions t)"
  by (simp add: potassium_section_def potassium_message_def potassium_actions_def field_of_def
        init_locals_rec_dict setitem_rec_dict getitem_rec_dict rec_dict_inj)

lemma four_sections:
  "potassium_section fmt t
     (phosphorus_section fmt t (nitrogen_section fmt t (ph_section fmt t init_locals))) =
   (rec_dict (Str []) (ph_message fmt t) (nitrogen_message fmt t) (phosphorus_message fmt t)
      (potassium_message fmt t)
      (if num_val (ph t) < 6 \<or> num_val (ph t) > 7.5 then Str ''high'' else Str ''medium'') (Actions []),
    emitted t)"
  unfolding init_locals_rec_dict ph_section_rec nitrogen_section_rec phosphorus_section_rec
    potassium_section_rec emitted_def
  by simp

lemma getitem_mk_action:
  "getitem (mk_action ty act amount prio) ''type'' = Inr ty"
  "getitem (mk_action ty act amount prio) ''action'' = Inr act"
  "getitem (mk_action ty act amount prio) ''amount'' = Inr amount"
  "getitem (mk_action ty act amount prio) ''priority'' = Inr prio"
  by (simp_all add: mk_action_def getitem_Cons)

lemma ph_actions_eq:
  "ph_actions t =
     (if num_val (ph t) < 6 then
        [mk_action ''pH adjustment'' ''Apply agricultural lime''
           (str_int (calculate_lime_requirement (num_val (ph t))) @ '' lbs per 1000 sq ft'') ''high'']
      else if num_val (ph t) > 7.5 then
        [mk_action ''pH adjustment'' ''Apply elemental sulfur''
           (str_int (calculate_sulfur_requirement (num_val (ph t))) @ '' lbs per 1000 sq ft'') ''high'']
      else [])"
  by (simp add: ph_actions_def ph_section_def init_locals_def)

lemma nitrogen_actions_eq:
  "nitrogen_actions t =
     (if num_val (nitrogen t) < 20 then
        [mk_action ''nitrogen'' ''Apply nitrogen fertilizer (21-0-0 or similar)''
           (str_int (calculate_nitrogen_requirement (num_val (nitrogen t))) @ '' lbs per 1000 sq ft'')
           ''medium'']
      else if num_val (nitrogen t) > 50 then
        [mk_action ''nitrogen'' ''Reduce or skip nitrogen fertilization''
           ''Monitor and test again in 6 months'' ''low'']
      else [])"
  by (simp add: nitrogen_actions_def nitrogen_section_def init_locals_def)

lemma phosphorus_actions_eq:
  "phosphorus_actions t =
     (if num_val (phosphorus t) < 15 then
        [mk_action ''phosphorus'' ''Apply phosphorus fertilizer (0-46-0 or bone meal)''
           (str_int (calculate_phosphorus_requirement (num_val (phosphorus t))) @ '' lbs per 1000 sq ft'')
           ''medium'']
      else if num_val (phosphorus t) > 50 then
        [mk_action ''phosphorus'' ''Skip phosphorus fertilization''
           ''Use low or no-phosphorus fertilizers'' ''low'']
      else [])"
  by (simp add: phosphorus_actions_def phosphorus_section_def init_locals_def)

lemma potassium_actions_eq:
  "potassium_actions t =
     (if num_val (potassium t) < 100 then
        [mk_action ''potassium'' ''Apply potassium fertilizer (0-0-60 or potash)''
           (str_int (calculate_potassium_requirement (num_val (potassium t))) @ '' lbs per 1000 sq ft'')
           ''medium'']
      else if num_val (potassium t) > 300 then
        [mk_action ''potassium'' ''Reduce potassium fertilization''
           ''Monitor levels and retest in 12 months'' ''low'']
      else [])"
  by (simp add: potassium_actions_def potassium_section_def init_locals_def)

lemma ph_message_eq:
  "ph_message fmt t =
     Str (if num_val (ph t) < 6 then
            ''Soil is acidic (pH '' @ num_str fmt (ph t) @
            ''). Apply lime to raise pH to 6.0-7.0 range for optimal nutrient availability.''
          else if num_val (ph t) > 7.5 then
            ''Soil is alkaline (pH '' @ num_str fmt (ph t) @
            ''). Apply sulfur or organic matter to lower pH.''
          else ''pH level ('' @ num_str fmt (ph t) @ '') is optimal for most crops.'')"
  by (simp add: ph_message_def ph_section_def field_of_def init_locals_rec_dict
        setitem_rec_dict getitem_rec_dict)

lemma nitrogen_message_eq:
  "nitrogen_message fmt t =
     Str (if num_val (nitrogen t) < 20 then
            ''Low nitrogen levels ('' @ num_str fmt (nitrogen t) @
            '' ppm). Apply nitrogen-rich fertilizer or compost.''
          else if num_val (nitrogen t) > 50 then
            ''High nitrogen levels ('' @ num_str fmt (nitrogen t) @
            '' ppm). Reduce nitrogen fertilization to prevent burning and runoff.''
          else ''Nitrogen levels ('' @ num_str fmt (nitrogen t) @ '' ppm) are adequate.'')"
  by (simp add: nitrogen_message_def nitrogen_section_def field_of_def init_locals_rec_dict
        setitem_rec_dict getitem_rec_dict)

lemma phosphorus_message_eq:
  "phosphorus_message fmt t =
     Str (if num_val (phosphorus t) < 15 then
            ''Low phosphorus levels ('' @ num_str fmt (phosphorus t) @
            '' ppm). Apply phosphorus fertilizer for strong root development.''
          else if num_val (phosphorus t) > 50 then
            ''High phosphorus levels ('' @ num_str fmt (phosphorus t) @
            '' ppm). Avoid phosphorus fertilizers.''
          else ''Phosphorus levels ('' @ num_str fmt (phosphorus t) @ '' ppm) are sufficient.'')"
  by (simp add: phosphorus_message_def phosphorus_section_def field_of_def init_locals_rec_dict
        setitem_rec_dict getitem_rec_dict)

lemma potassium_message_eq:
  "potassium_message fmt t =
     Str (if num_val (potassium t) < 100 then
            ''Low potassium levels ('' @ num_str fmt (potassium t) @
            '' ppm). Apply potassium fertilizer for plant health and disease resistance.''
          else if num_val (potassium t) > 300 then
            ''High potassium levels ('' @ num_str fmt (potassium t) @
            '' ppm). Reduce potassium fertilization.''
          else ''Potassium levels ('' @ num_str fmt (potassium t) @ '' ppm) are adequate.'')"
  by (simp add: potassium_message_def potassium_section_def field_of_def init_locals_rec_dict
        setitem_rec_dict getitem_rec_dict)

lemma actions_with_priority_wf:
  "(\<And>a. a \<in> set as \<Longrightarrow> \<exists>q. getitem a ''priority'' = Inr q) \<Longrightarrow>
     actions_with_priority p as = Inr (filter (\<lambda>a. getitem a ''priority'' = Inr p) as)"
proof (induction as)
  case Nil
  show ?case by simp
next
  case (Cons a as)
  from Cons.prems obtain q where q: "getitem a ''priority'' = Inr q" by auto
  have "actions_with_priority p as = Inr (filter (\<lambda>a. getitem a ''priority'' = Inr p) as)"
    using Cons by simp
  with q show ?case by simp
qed

lemma actions_with_priority_nonempty:
  assumes wf: "\<And>a. a \<in> set as \<Longrightarrow> \<exists>q. getitem a ''priority'' = Inr q"
  shows "\<exists>r. actions_with_priority p as = Inr r \<and> (r \<noteq> [] \<longleftrightarrow> has_priority p as)"
  by (simp add: actions_with_priority_wf [OF wf] filter_empty_conv has_priority_def)

lemma overall_section_rec:
  assumes wf: "\<And>a. a \<in> set as \<Longrightarrow> \<exists>q. getitem a ''priority'' = Inr q"
  shows "overall_section (rec_dict ov phr nr pr kr prio acts, as) =
       Inr (rec_dict (Str (overall_message as)) phr nr pr kr (Str (rollup as)) (Actions as))"
proof -
  obtain h where h: "actions_with_priority ''high'' as = Inr h"
    and hn: "h \<noteq> [] \<longleftrightarrow> has_priority ''high'' as"
    using actions_with_priority_nonempty [OF wf] by blast
  obtain m where m: "actions_with_priority ''medium'' as = Inr m"
    and mn: "m \<noteq> [] \<longleftrightarrow> has_priority ''medium'' as"
    using actions_with_priority_nonempty [OF wf] by blast
  show ?thesis
    by (simp add: overall_section_def h m hn mn setitem_rec_dict rec_dict_inj rollup_def
          overall_message_def)
qed

lemma emitted_priority:
  "a \<in> set (emitted t) \<Longrightarrow>
     getitem a ''priority'' = Inr ''high'' \<or> getitem a ''priority'' = Inr ''medium'' \<or>
     getitem a ''priority'' = Inr ''low''"
  by (auto simp: emitted_def ph_actions_eq nitrogen_actions_eq phosphorus_actions_eq
        potassium_actions_eq getitem_mk_action split: if_splits)

lemma emitted_wf: "a \<in> set (emitted t) \<Longrightarrow> \<exists>q. getitem a ''priority'' = Inr q"
  using emitted_priority [of a t] by blast

lemma generate_normal_form:
  "generate_fertilizer_recommendations fmt t =
     Inr (rec_dict (Str (overall_message (emitted t))) (ph_message fmt t)
            (nitrogen_message fmt t) (phosphorus_message fmt t) (potassium_message fmt t)
            (Str (rollup (emitted t))) (Actions (emitted t)))"
  unfolding generate_fertilizer_recommendations_def four_sections
  by (rule overall_section_rec) (rule emitted_wf)

lemma filter_type_ph:
  "filter (\<lambda>a. getitem a ''type'' = Inr ''pH adjustment'') (ph_actions t) = ph_actions t"
  "filter (\<lambda>a. getitem a ''type'' = Inr ''nitrogen'') (ph_actions t) = []"
  "filter (\<lambda>a. getitem a ''type'' = Inr ''phosphorus'') (ph_actions t) = []"
  "filter (\<lambda>a. getitem a ''type'' = Inr ''potassium'') (ph_actions t) = []"
  by (simp_all add: ph_actions_eq getitem_mk_action)

lemma filter_type_nitrogen:
  "filter (\<lambda>a. getitem a ''type'' = Inr ''pH adjustment'') (nitrogen_actions t) = []"
  "filter (\<lambda>a. getitem a ''type'' = Inr ''nitrogen'') (nitrogen_actions t) = nitrogen_actions t"
  "filter (\<lambda>a. getitem a ''type'' = Inr ''phosphorus'') (nitrogen_actions t) = []"
  "filter (\<lambda>a. getitem a ''type'' = Inr ''potassium'') (nitrogen_actions t) = []"
  by (simp_all add: nitrogen_actions_eq getitem_mk_action)

lemma filter_type_phosphorus:
  "filter (\<lambda>a. getitem a ''type'' = Inr ''pH adjustment'') (phosphorus_actions t) = []"
  "filter (\<lambda>a. getitem a ''type'' = Inr ''nitrogen'') (phosphorus_actions t) = []"
  "filter (\<lambda>a. getitem a ''type'' = Inr ''phosphorus'') (phosphorus_actions t) = phosphorus_actions t"
  "filter (\<lambda>a. getitem a ''type'' = Inr ''potassium'') (phosphorus_actions t) = []"
  by (simp_all add: phosphorus_actions_eq getitem_mk_action)

lemma filter_type_potassium:
  "filter (\<lambda>a. getitem a ''type'' = Inr ''pH adjustment'') (potassium_actions t) = []"
  "filter (\<lambda>a. getitem a ''type'' = Inr ''nitrogen'') (potassium_actions t) = []"
  "filter (\<lambda>a. getitem a ''type'' = Inr ''phosphorus'') (potassium_actions t) = []"
  "filter (\<lambda>a. getitem a ''type'' = Inr ''potassium'') (potassium_actions t) = potassium_actions t"
  by (simp_all add: potassium_actions_eq getitem_mk_action)

lemma filter_type_emitted:
  "filter (\<lambda>a. getitem a ''type'' = Inr ''pH adjustment'') (emitted t) = ph_actions t"
  "filter (\<lambda>a. getitem a ''type'' = Inr ''nitrogen'') (emitted t) = nitrogen_actions t"
  "filter (\<lambda>a. getitem a ''type'' = Inr ''phosphorus'') (emitted t) = phosphorus_actions t"
  "filter (\<lambda>a. getitem a ''type'' = Inr ''potassium'') (emitted t) = potassium_actions t"
  by (simp_all add: emitted_def filter_type_ph filter_type_nitrogen filter_type_phosphorus
        filter_type_potassium)

lemma generate_fields:
  "\<exists>r. generate_fertilizer_recommendations fmt t = Inr r \<and>
       getitem r ''overall'' = Inr (Str (overall_message (emitted t))) \<and>
       getitem r ''ph_recommendation'' = Inr (ph_message fmt t) \<and>
       getitem r ''nitrogen_recommendation'' = Inr (nitrogen_message fmt t) \<and>
       getitem r ''phosphorus_recommendation'' = Inr (phosphorus_message fmt t) \<and>
       getitem r ''potassium_recommendation'' = Inr (potassium_message fmt t) \<and>
       getitem r ''priority'' = Inr (Str (rollup (emitted t))) \<and>
       getitem r ''actions'' = Inr (Actions (emitted t))"
  by (simp add: generate_normal_form getitem_rec_dict)

lemma str_int_values:
  "str_int 1 = ''1''" "str_int 2 = ''2''" "str_int 3 = ''3''" "str_int 4 = ''4''"
  "str_int 5 = ''5''" "str_int 6 = ''6''" "str_int 8 = ''8''" "str_int 10 = ''10''"
  "str_int 12 = ''12''" "str_int 15 = ''15''"
  by (simp_all add: str_int_def digits.simps digit_char_def)

lemma soil_with_fields:
  "ph (soil_with x n p k) = x" "nitrogen (soil_with x n p k) = n"
  "phosphorus (soil_with x n p k) = p" "potassium (soil_with x n p k) = k"
  by (simp_all add: soil_with_def)

lemma severity_order:
  "severity ''low'' < severity ''medium''" "severity ''medium'' < severity ''high''"
  by (simp_all add: severity_def)

lemma fold_severity:
  "set ps \<subseteq> {''low'', ''medium'', ''high''} \<Longrightarrow> m \<in> {''low'', ''medium'', ''high''} \<Longrightarrow>
     fold (\<lambda>q m. if severity m < severity q then q else m) ps m =
       (if ''high'' \<in> set ps \<or> m = ''high'' then ''high''
        else if ''medium'' \<in> set ps \<or> m = ''medium'' then ''medium'' else ''low'')"
proof (induction ps arbitrary: m)
  case Nil
  then show ?case by auto
next
  case (Cons q ps)
  from Cons.prems have q: "q = ''low'' \<or> q = ''medium'' \<or> q = ''high''"
    and ps: "set ps \<subseteq> {''low'', ''medium'', ''high''}"
    and m: "m = ''low'' \<or> m = ''medium'' \<or> m = ''high''" by auto
  let ?m = "if severity m < severity q then q else m"
  have "?m \<in> {''low'', ''medium'', ''high''}" using q m by auto
  from Cons.IH [OF ps this] show ?case
    using q m by (auto simp: severity_def)
qed

lemma max_severity_eq:
  "set ps \<subseteq> {''low'', ''medium'', ''high''} \<Longrightarrow>
     max_severity ps =
       (if ''high'' \<in> set ps then ''high'' else if ''medium'' \<in> set ps then ''medium'' else ''low'')"
  unfolding max_severity_def by (subst fold_severity) simp_all

lemma max_severity_is_max:
  assumes "set ps \<subseteq> {''low'', ''medium'', ''high''}"
  shows "p \<in> set ps \<Longrightarrow> severity p \<le> severity (max_severity ps)"
    and "ps \<noteq> [] \<Longrightarrow> max_severity ps \<in> set ps"
proof -
  show "severity p \<le> severity (max_severity ps)" if "p \<in> set ps"
    using assms that by (auto simp: max_severity_eq severity_def)
  show "max_severity ps \<in> set ps" if "ps \<noteq> []"
  proof -
    from that obtain q where "q \<in> set ps" by (cases ps) auto
    with assms show ?thesis by (auto simp: max_severity_eq)
  qed
qed

lemma priorities_list:
  "(\<And>a. a \<in> set as \<Longrightarrow> \<exists>p \<in> S. f a = Inr p) \<Longrightarrow> \<exists>ps. map f as = map Inr ps \<and> set ps \<subseteq> S"
proof (induction as)
  case Nil
  show ?case by simp
next
  case (Cons a as)
  from Cons.prems obtain p where p: "p \<in> S" "f a = Inr p" by auto
  from Cons obtain ps where ps: "map f as = map Inr ps" "set ps \<subseteq> S" by auto
  from p ps have "map f (a # as) = map Inr (p # ps) \<and> set (p # ps) \<subseteq> S" by simp
  then show ?case by blast
qed

lemma has_priority_map:
  assumes "map (\<lambda>a. getitem a ''priority'') as = map Inr ps"
  shows "has_priority p as \<longleftrightarrow> p \<in> set ps"
proof -
  have "has_priority p as \<longleftrightarrow> Inr p \<in> set (map (\<lambda>a. getitem a ''priority'') as)"
    by (force simp: has_priority_def)
  also have "\<dots> \<longleftrightarrow> p \<in> set ps" unfolding assms by auto
  finally show ?thesis .
qed

lemma rollup_max_severity:
  assumes "map (\<lambda>a. getitem a ''priority'') as = map Inr ps"
    and "set ps \<subseteq> {''low'', ''medium'', ''high''}"
  shows "rollup as = max_severity ps"
  by (simp add: rollup_def has_priority_map [OF assms(1)] max_severity_eq [OF assms(2)])

lemma score_sections:
  "ph_score t h = h + contribution (6, 7) (5.5, 7.5) (5, 8) (num_val (ph t))"
  "nitrogen_score t h = h + contribution (20, 50) (15, 60) (10, 80) (num_val (nitrogen t))"
  "phosphorus_score t h = h + contribution (15, 50) (10, 60) (5, 80) (num_val (phosphorus t))"
  "potassium_score t h = h + contribution (100, 300) (75, 400) (50, 500) (num_val (potassium t))"
  by (simp_all add: ph_score_def nitrogen_score_def phosphorus_score_def potassium_score_def
        contribution_def)

lemma health_percentage_eq:
  "health_percentage t =
     (contribution (6, 7) (5.5, 7.5) (5, 8) (num_val (ph t)) +
      contribution (20, 50) (15, 60) (10, 80) (num_val (nitrogen t)) +
      contribution (15, 50) (10, 60) (5, 80) (num_val (phosphorus t)) +
      contribution (100, 300) (75, 400) (50, 500) (num_val (potassium t))) / 4 * 100"
  by (simp add: health_percentage_def score_sections)

lemma contribution_tenths: "\<exists>k::int. contribution a b c x = of_int k / 10"
proof -
  have "contribution a b c x = of_int 10 / 10 \<or> contribution a b c x = of_int 7 / 10 \<or>
        contribution a b c x = of_int 4 / 10 \<or> contribution a b c x = of_int 0 / 10"
    by (simp add: contribution_def)
  then show ?thesis by blast
qed

lemma py_round1_tenths: "py_round1 (of_int k / 10) = of_int k / 10"
  by (simp add: py_round1_def Let_def)

lemma health_percentage_tenths: "\<exists>k::int. health_percentage t = of_int k / 10"
proof -
  obtain k1 :: int where k1: "contribution (6, 7) (5.5, 7.5) (5, 8) (num_val (ph t)) = of_int k1 / 10"
    using contribution_tenths by blast
  obtain k2 :: int where k2: "contribution (20, 50) (15, 60) (10, 80) (num_val (nitrogen t)) = of_int k2 / 10"
    using contribution_tenths by blast
  obtain k3 :: int where k3: "contribution (15, 50) (10, 60) (5, 80) (num_val (phosphorus t)) = of_int k3 / 10"
    using contribution_tenths by blast
  obtain k4 :: int where k4: "contribution (100, 300) (75, 400) (50, 500) (num_val (potassium t)) = of_int k4 / 10"
    using contribution_tenths by blast
  have "health_percentage t = of_int (25 * (k1 + k2 + k3 + k4)) / 10"
    unfolding health_percentage_eq k1 k2 k3 k4 by simp
  then show ?thesis by blast
qed

lemma py_round1_health_percentage: "py_round1 (health_percentage t) = health_percentage t"
proof -
  obtain k :: int where k: "health_percentage t = of_int k / 10"
    using health_percentage_tenths by blast
  show ?thesis unfolding k by (rule py_round1_tenths)
qed

lemma append_neq_Cons_append: "xs @ r \<noteq> c # xs @ r"
proof
  assume "xs @ r = c # xs @ r"
  then have "length (xs @ r) = length (c # xs @ r)" by (rule arg_cong)
  then show False by simp
qed

lemma emitted_cong:
  assumes "num_val (ph a) = num_val (ph b)" and "num_val (nitrogen a) = num_val (nitrogen b)"
    and "num_val (phosphorus a) = num_val (phosphorus b)"
    and "num_val (potassium a) = num_val (potassium b)"
  shows "emitted a = emitted b"
  unfolding emitted_def ph_actions_eq nitrogen_actions_eq phosphorus_actions_eq
    potassium_actions_eq assms ..

section \<open>The claims\<close>

text \<open>
  In the statements below, \<open>float_str\<close> is any rendering of non-negative floats, \<open>t\<close> any
  soil test, and the actions of one nutrient are the actions whose \<^verbatim>\<open>type\<close> is that
  nutrient's.
\<close>

text \<open>
  Claim C1. For every input, the engine returns a result whose priority is the maximum
  severity among the priorities of the emitted actions, in the order high above medium
  above low, and is low when the list of actions is empty. Here \<open>ps\<close> is the list of the
  priorities of the emitted actions, in order; each is one of the three levels.
\<close>

theorem priority_is_max_severity:
  "\<exists>r acts ps. generate_fertilizer_recommendations float_str t = Inr r \<and>
     getitem r ''actions'' = Inr (Actions acts) \<and>
     map (\<lambda>a. getitem a ''priority'') acts = map Inr ps \<and>
     set ps \<subseteq> {''low'', ''medium'', ''high''} \<and>
     getitem r ''priority'' = Inr (Str (max_severity ps)) \<and>
     (acts = [] \<longrightarrow> getitem r ''priority'' = Inr (Str ''low''))"
proof -
  from generate_fields [of float_str t] obtain r where
    r: "generate_fertilizer_recommendations float_str t = Inr r"
    and p: "getitem r ''priority'' = Inr (Str (rollup (emitted t)))"
    and a: "getitem r ''actions'' = Inr (Actions (emitted t))"
    by (elim exE conjE)
  have "\<exists>ps. map (\<lambda>a. getitem a ''priority'') (emitted t) = map Inr ps \<and>
          set ps \<subseteq> {''low'', ''medium'', ''high''}"
  proof (rule priorities_list)
    fix a assume "a \<in> set (emitted t)"
    from emitted_priority [OF this]
    show "\<exists>p \<in> {''low'', ''medium'', ''high''}. getitem a ''priority'' = Inr p" by auto
  qed
  then obtain ps where m: "map (\<lambda>a. getitem a ''priority'') (emitted t) = map Inr ps"
    and s: "set ps \<subseteq> {''low'', ''medium'', ''high''}" by (elim exE conjE)
  have mx: "getitem r ''priority'' = Inr (Str (max_severity ps))"
    unfolding p rollup_max_severity [OF m s] ..
  have e: "emitted t = [] \<longrightarrow> getitem r ''priority'' = Inr (Str ''low'')"
    by (simp add: p rollup_def has_priority_def)
  from r a m s mx e show ?thesis by (intro exI conjI)
qed

theorem priority_is_max_severity_witness:
  "(\<exists>r. generate_fertilizer_recommendations (\<lambda>x. ''#'')
        (soil_with (PyFloat 6.5) (PyFloat 30) (PyFloat 30) (PyFloat 200)) = Inr r \<and>
      getitem r ''actions'' = Inr (Actions []) \<and>
      getitem r ''priority'' = Inr (Str ''low'')) \<and>
   (\<exists>r. generate_fertilizer_recommendations (\<lambda>x. ''#'')
        (soil_with (PyFloat 6.5) (PyFloat 10) (PyFloat 60) (PyFloat 200)) = Inr r \<and>
      getitem r ''priority'' = Inr (Str (max_severity [''medium'', ''low''])) \<and>
      getitem r ''priority'' = Inr (Str ''medium''))"
proof (intro conjI)
  let ?t = "soil_with (PyFloat 6.5) (PyFloat 30) (PyFloat 30) (PyFloat 200)"
  from priority_is_max_severity [of "\<lambda>x. ''#''" ?t] obtain r acts where
    r: "generate_fertilizer_recommendations (\<lambda>x. ''#'') ?t = Inr r"
    and a: "getitem r ''actions'' = Inr (Actions acts)"
    and e: "acts = [] \<longrightarrow> getitem r ''priority'' = Inr (Str ''low'')"
    by (elim exE conjE)
  have em: "emitted ?t = []"
    by (simp add: emitted_def ph_actions_eq nitrogen_actions_eq phosphorus_actions_eq
          potassium_actions_eq soil_with_fields)
  from r a have "acts = emitted ?t"
    by (auto simp: generate_normal_form getitem_rec_dict)
  with em have n: "acts = []" by simp
  with e have p: "getitem r ''priority'' = Inr (Str ''low'')" by simp
  from a n have a': "getitem r ''actions'' = Inr (Actions [])" by simp
  from r a' p
  show "\<exists>r. generate_fertilizer_recommendations (\<lambda>x. ''#'') ?t = Inr r \<and>
      getitem r ''actions'' = Inr (Actions []) \<and>
      getitem r ''priority'' = Inr (Str ''low'')"
    by (intro exI conjI)
next
  let ?t = "soil_with (PyFloat 6.5) (PyFloat 10) (PyFloat 60) (PyFloat 200)"
  from priority_is_max_severity [of "\<lambda>x. ''#''" ?t] obtain r acts ps where
    r: "generate_fertilizer_recommendations (\<lambda>x. ''#'') ?t = Inr r"
    and a: "getitem r ''actions'' = Inr (Actions acts)"
    and m: "map (\<lambda>a. getitem a ''priority'') acts = map Inr ps"
    and p: "getitem r ''priority'' = Inr (Str (max_severity ps))"
    by (elim exE conjE)
  have em: "map (\<lambda>a. getitem a ''priority'') (emitted ?t) = [Inr ''medium'', Inr ''low'']"
    by (simp add: emitted_def ph_actions_eq nitrogen_actions_eq phosphorus_actions_eq
          potassium_actions_eq soil_with_fields getitem_mk_action)
  from r a have "acts = emitted ?t"
    by (auto simp: generate_normal_form getitem_rec_dict)
  with m em have "map Inr ps = [Inr ''medium'', Inr ''low'' :: py_error + string]" by simp
  then have ps: "ps = [''medium'', ''low'']" by auto
  have v: "max_severity [''medium'', ''low''] = ''medium''"
    by (simp add: max_severity_def severity_def)
  from p ps have p1: "getitem r ''priority'' = Inr (Str (max_severity [''medium'', ''low'']))"
    by simp
  then have p2: "getitem r ''priority'' = Inr (Str ''medium'')" by (simp only: v)
  from r p1 p2
  show "\<exists>r. generate_fertilizer_recommendations (\<lambda>x. ''#'') ?t = Inr r \<and>
      getitem r ''priority'' = Inr (Str (max_severity [''medium'', ''low''])) \<and>
      getitem r ''priority'' = Inr (Str ''medium'')"
    by (intro exI conjI)
qed

text \<open>
  The scenario of claim C2: pH 5.5, nitrogen 10, phosphorus 10, potassium 50. The claim
  as worded gives the lime dosage as 12 lbs and the potassium dosage as 4. On the code
  the lime dosage is 8, since 5.5 is not below 5.5, and the potassium dosage is 3, since
  50 is not below 50, as the dosage tables of claim C4 say; the two amounts the engine
  emits are 8 and 3.
\<close>

theorem scenario_dosages_are_8_and_3:
  "calculate_lime_requirement 5.5 = 8 \<and> calculate_lime_requirement 5.5 \<noteq> 12 \<and>
   calculate_potassium_requirement 50 = 3 \<and> calculate_potassium_requirement 50 \<noteq> 4 \<and>
   (\<forall>float_str. \<exists>r.
      generate_fertilizer_recommendations float_str
        (soil_with (PyFloat 5.5) (PyFloat 10) (PyFloat 10) (PyFloat 50)) = Inr r \<and>
      getitem r ''actions'' = Inr (Actions
        [[(''type'', ''pH adjustment''), (''action'', ''Apply agricultural lime''),
          (''amount'', ''8 lbs per 1000 sq ft''), (''priority'', ''high'')],
         [(''type'', ''nitrogen''), (''action'', ''Apply nitrogen fertilizer (21-0-0 or similar)''),
          (''amount'', ''2 lbs per 1000 sq ft''), (''priority'', ''medium'')],
         [(''type'', ''phosphorus''),
          (''action'', ''Apply phosphorus fertilizer (0-46-0 or bone meal)''),
          (''amount'', ''2 lbs per 1000 sq ft''), (''priority'', ''medium'')],
         [(''type'', ''potassium''), (''action'', ''Apply potassium fertilizer (0-0-60 or potash)''),
          (''amount'', ''3 lbs per 1000 sq ft''), (''priority'', ''medium'')]]))"
  by (simp add: generate_normal_form getitem_rec_dict emitted_def ph_actions_eq
        nitrogen_actions_eq phosphorus_actions_eq potassium_actions_eq soil_with_fields
        mk_action_def calculate_lime_requirement_def calculate_nitrogen_requirement_def
        calculate_phosphorus_requirement_def calculate_potassium_requirement_def str_int_values)

text \<open>
  Claim C2, amended. For every input with pH 5.5, nitrogen 10, phosphorus 10 and
  potassium 50, the engine classifies pH acidic with lime dosage 8 lbs, nitrogen low with
  dosage 2, phosphorus low with dosage 2, potassium low with dosage 3, returns the
  overall priority high, and emits exactly these 4 actions, in this order.
\<close>

theorem scenario_acidic_low_nutrients:
  assumes "num_val (ph t) = 5.5" and "num_val (nitrogen t) = 10"
    and "num_val (phosphorus t) = 10" and "num_val (potassium t) = 50"
  shows "\<exists>r acts. generate_fertilizer_recommendations float_str t = Inr r \<and>
     getitem r ''ph_recommendation'' =
       Inr (Str (''Soil is acidic (pH '' @ num_str float_str (ph t) @
         ''). Apply lime to raise pH to 6.0-7.0 range for optimal nutrient availability.'')) \<and>
     getitem r ''nitrogen_recommendation'' =
       Inr (Str (''Low nitrogen levels ('' @ num_str float_str (nitrogen t) @
         '' ppm). Apply nitrogen-rich fertilizer or compost.'')) \<and>
     getitem r ''phosphorus_recommendation'' =
       Inr (Str (''Low phosphorus levels ('' @ num_str float_str (phosphorus t) @
         '' ppm). Apply phosphorus fertilizer for strong root development.'')) \<and>
     getitem r ''potassium_recommendation'' =
       Inr (Str (''Low potassium levels ('' @ num_str float_str (potassium t) @
         '' ppm). Apply potassium fertilizer for plant health and disease resistance.'')) \<and>
     getitem r ''priority'' = Inr (Str ''high'') \<and>
     getitem r ''actions'' = Inr (Actions acts) \<and>
     length acts = 4 \<and>
     acts =
        [[(''type'', ''pH adjustment''), (''action'', ''Apply agricultural lime''),
          (''amount'', ''8 lbs per 1000 sq ft''), (''priority'', ''high'')],
         [(''type'', ''nitrogen''), (''action'', ''Apply nitrogen fertilizer (21-0-0 or similar)''),
          (''amount'', ''2 lbs per 1000 sq ft''), (''priority'', ''medium'')],
         [(''type'', ''phosphorus''),
          (''action'', ''Apply phosphorus fertilizer (0-46-0 or bone meal)''),
          (''amount'', ''2 lbs per 1000 sq ft''), (''priority'', ''medium'')],
         [(''type'', ''potassium''), (''action'', ''Apply potassium fertilizer (0-0-60 or potash)''),
          (''amount'', ''3 lbs per 1000 sq ft''), (''priority'', ''medium'')]]"
proof -
  have e: "emitted t =
        [[(''type'', ''pH adjustment''), (''action'', ''Apply agricultural lime''),
          (''amount'', ''8 lbs per 1000 sq ft''), (''priority'', ''high'')],
         [(''type'', ''nitrogen''), (''action'', ''Apply nitrogen fertilizer (21-0-0 or similar)''),
          (''amount'', ''2 lbs per 1000 sq ft''), (''priority'', ''medium'')],
         [(''type'', ''phosphorus''),
          (''action'', ''Apply phosphorus fertilizer (0-46-0 or bone meal)''),
          (''amount'', ''2 lbs per 1000 sq ft''), (''priority'', ''medium'')],
         [(''type'', ''potassium''), (''action'', ''Apply potassium fertilizer (0-0-60 or potash)''),
          (''amount'', ''3 lbs per 1000 sq ft''), (''priority'', ''medium'')]]"
    by (simp add: emitted_def ph_actions_eq nitrogen_actions_eq phosphorus_actions_eq
          potassium_actions_eq assms mk_action_def calculate_lime_requirement_def
          calculate_nitrogen_requirement_def calculate_phosphorus_requirement_def
          calculate_potassium_requirement_def str_int_values)
  have p: "rollup (emitted t) = ''high''"
    unfolding e by (simp add: rollup_def has_priority_def getitem_Cons)
  show ?thesis
    unfolding generate_normal_form p
    by (simp add: getitem_rec_dict ph_message_eq nitrogen_message_eq phosphorus_message_eq
          potassium_message_eq assms e)
qed

theorem scenario_acidic_low_nutrients_witness:
  "\<exists>r. generate_fertilizer_recommendations (\<lambda>x. ''#'') soil_a = Inr r \<and>
     getitem r ''ph_recommendation'' =
       Inr (Str ''Soil is acidic (pH #). Apply lime to raise pH to 6.0-7.0 range for optimal nutrient availability.'') \<and>
     getitem r ''nitrogen_recommendation'' =
       Inr (Str ''Low nitrogen levels (# ppm). Apply nitrogen-rich fertilizer or compost.'') \<and>
     getitem r ''phosphorus_recommendation'' =
       Inr (Str ''Low phosphorus levels (# ppm). Apply phosphorus fertilizer for strong root development.'') \<and>
     getitem r ''potassium_recommendation'' =
       Inr (Str ''Low potassium levels (# ppm). Apply potassium fertilizer for plant health and disease resistance.'') \<and>
     getitem r ''priority'' = Inr (Str ''high'') \<and>
     getitem r ''actions'' = Inr (Actions
        [[(''type'', ''pH adjustment''), (''action'', ''Apply agricultural lime''),
          (''amount'', ''8 lbs per 1000 sq ft''), (''priority'', ''high'')],
         [(''type'', ''nitrogen''), (''action'', ''Apply nitrogen fertilizer (21-0-0 or similar)''),
          (''amount'', ''2 lbs per 1000 sq ft''), (''priority'', ''medium'')],
         [(''type'', ''phosphorus''),
          (''action'', ''Apply phosphorus fertilizer (0-46-0 or bone meal)''),
          (''amount'', ''2 lbs per 1000 sq ft''), (''priority'', ''medium'')],
         [(''type'', ''potassium''), (''action'', ''Apply potassium fertilizer (0-0-60 or potash)''),
          (''amount'', ''3 lbs per 1000 sq ft''), (''priority'', ''medium'')]])"
  using scenario_acidic_low_nutrients [of soil_a "\<lambda>x. ''#''"]
  by (simp add: soil_a_def num_str_def)



text \<open>
  Claim C4. Each of the five dosage functions equals its table for every real input:
  lime gives 15 below 5.0, 12 from 5.0 and below 5.5, 8 from 5.5 and below 6.0, else 5;
  sulfur gives 10 above 8.0, 6 above 7.5 up to 8.0, else 3; nitrogen gives 4 below 10,
  2 from 10 and below 20, else 1; phosphorus gives 3 below 5, 2 from 5 and below 15,
  else 1; potassium gives 4 below 50, 3 from 50 and below 100, else 1.
\<close>

theorem dosage_tables:
  "(x < 5 \<longrightarrow> calculate_lime_requirement x = 15) \<and>
   (5 \<le> x \<and> x < 5.5 \<longrightarrow> calculate_lime_requirement x = 12) \<and>
   (5.5 \<le> x \<and> x < 6 \<longrightarrow> calculate_lime_requirement x = 8) \<and>
   (6 \<le> x \<longrightarrow> calculate_lime_requirement x = 5) \<and>
   (y > 8 \<longrightarrow> calculate_sulfur_requirement y = 10) \<and>
   (7.5 < y \<and> y \<le> 8 \<longrightarrow> calculate_sulfur_requirement y = 6) \<and>
   (y \<le> 7.5 \<longrightarrow> calculate_sulfur_requirement y = 3) \<and>
   (n < 10 \<longrightarrow> calculate_nitrogen_requirement n = 4) \<and>
   (10 \<le> n \<and> n < 20 \<longrightarrow> calculate_nitrogen_requirement n = 2) \<and>
   (20 \<le> n \<longrightarrow> calculate_nitrogen_requirement n = 1) \<and>
   (p < 5 \<longrightarrow> calculate_phosphorus_requirement p = 3) \<and>
   (5 \<le> p \<and> p < 15 \<longrightarrow> calculate_phosphorus_requirement p = 2) \<and>
   (15 \<le> p \<longrightarrow> calculate_phosphorus_requirement p = 1) \<and>
   (k < 50 \<longrightarrow> calculate_potassium_requirement k = 4) \<and>
   (50 \<le> k \<and> k < 100 \<longrightarrow> calculate_potassium_requirement k = 3) \<and>
   (100 \<le> k \<longrightarrow> calculate_potassium_requirement k = 1)"
  by (simp add: calculate_lime_requirement_def calculate_sulfur_requirement_def
        calculate_nitrogen_requirement_def calculate_phosphorus_requirement_def
        calculate_potassium_requirement_def)

theorem dosage_tables_witness:
  "calculate_lime_requirement 4 = 15 \<and> calculate_lime_requirement 5 = 12 \<and>
   calculate_lime_requirement 5.5 = 8 \<and> calculate_lime_requirement 6 = 5 \<and>
   calculate_sulfur_requirement 9 = 10 \<and> calculate_sulfur_requirement 8 = 6 \<and>
   calculate_sulfur_requirement 7.5 = 3 \<and>
   calculate_nitrogen_requirement 5 = 4 \<and> calculate_nitrogen_requirement 10 = 2 \<and>
   calculate_nitrogen_requirement 20 = 1 \<and>
   calculate_phosphorus_requirement 3 = 3 \<and> calculate_phosphorus_requirement 5 = 2 \<and>
   calculate_phosphorus_requirement 15 = 1 \<and>
   calculate_potassium_requirement 30 = 4 \<and> calculate_potassium_requirement 50 = 3 \<and>
   calculate_potassium_requirement 100 = 1"
  using dosage_tables [of 4 9 5 3 30] dosage_tables [of 5 8 10 5 50]
    dosage_tables [of "5.5" "7.5" 20 15 100] dosage_tables [of 6 "7.5" 20 15 100]
  by simp



text \<open>
  Claim C6. A nutrient value in its adequate band, the two boundaries included, never
  emits an action for that nutrient: for every input, nitrogen from 20 to 50 (so
  nitrogen = 20 and nitrogen = 50) emits no nitrogen action, phosphorus from 15 to 50 no
  phosphorus action, potassium from 100 to 300 no potassium action, and the message is
  the descriptive one. The witness runs the boundaries 20, 15, 100 and 50, 50, 300.
\<close>

theorem adequate_band_emits_no_action:
  "\<exists>r acts. generate_fertilizer_recommendations float_str t = Inr r \<and>
     getitem r ''actions'' = Inr (Actions acts) \<and>
     (20 \<le> num_val (nitrogen t) \<and> num_val (nitrogen t) \<le> 50 \<longrightarrow>
        getitem r ''nitrogen_recommendation'' =
          Inr (Str (''Nitrogen levels ('' @ num_str float_str (nitrogen t) @ '' ppm) are adequate.'')) \<and>
        filter (\<lambda>a. getitem a ''type'' = Inr ''nitrogen'') acts = []) \<and>
     (15 \<le> num_val (phosphorus t) \<and> num_val (phosphorus t) \<le> 50 \<longrightarrow>
        getitem r ''phosphorus_recommendation'' =
          Inr (Str (''Phosphorus levels ('' @ num_str float_str (phosphorus t) @
                    '' ppm) are sufficient.'')) \<and>
        filter (\<lambda>a. getitem a ''type'' = Inr ''phosphorus'') acts = []) \<and>
     (100 \<le> num_val (potassium t) \<and> num_val (potassium t) \<le> 300 \<longrightarrow>
        getitem r ''potassium_recommendation'' =
          Inr (Str (''Potassium levels ('' @ num_str float_str (potassium t) @
                    '' ppm) are adequate.'')) \<and>
        filter (\<lambda>a. getitem a ''type'' = Inr ''potassium'') acts = [])"
proof -
  from generate_fields [of float_str t] obtain r where
    r: "generate_fertilizer_recommendations float_str t = Inr r"
    and n: "getitem r ''nitrogen_recommendation'' = Inr (nitrogen_message float_str t)"
    and p: "getitem r ''phosphorus_recommendation'' = Inr (phosphorus_message float_str t)"
    and k: "getitem r ''potassium_recommendation'' = Inr (potassium_message float_str t)"
    and a: "getitem r ''actions'' = Inr (Actions (emitted t))"
    by (elim exE conjE)
  have 1: "20 \<le> num_val (nitrogen t) \<and> num_val (nitrogen t) \<le> 50 \<longrightarrow>
        getitem r ''nitrogen_recommendation'' =
          Inr (Str (''Nitrogen levels ('' @ num_str float_str (nitrogen t) @ '' ppm) are adequate.'')) \<and>
        filter (\<lambda>a. getitem a ''type'' = Inr ''nitrogen'') (emitted t) = []"
    by (simp add: n nitrogen_message_eq filter_type_emitted nitrogen_actions_eq)
  have 2: "15 \<le> num_val (phosphorus t) \<and> num_val (phosphorus t) \<le> 50 \<longrightarrow>
        getitem r ''phosphorus_recommendation'' =
          Inr (Str (''Phosphorus levels ('' @ num_str float_str (phosphorus t) @
                    '' ppm) are sufficient.'')) \<and>
        filter (\<lambda>a. getitem a ''type'' = Inr ''phosphorus'') (emitted t) = []"
    by (simp add: p phosphorus_message_eq filter_type_emitted phosphorus_actions_eq)
  have 3: "100 \<le> num_val (potassium t) \<and> num_val (potassium t) \<le> 300 \<longrightarrow>
        getitem r ''potassium_recommendation'' =
          Inr (Str (''Potassium levels ('' @ num_str float_str (potassium t) @
                    '' ppm) are adequate.'')) \<and>
        filter (\<lambda>a. getitem a ''type'' = Inr ''potassium'') (emitted t) = []"
    by (simp add: k potassium_message_eq filter_type_emitted potassium_actions_eq)
  from r a 1 2 3 show ?thesis by (intro exI conjI)
qed

theorem adequate_band_emits_no_action_witness:
  "(\<exists>r acts. generate_fertilizer_recommendations (\<lambda>x. ''#'')
        (soil_with (PyFloat 5) (PyFloat 20) (PyFloat 15) (PyFloat 100)) = Inr r \<and>
      getitem r ''actions'' = Inr (Actions acts) \<and>
      getitem r ''nitrogen_recommendation'' = Inr (Str ''Nitrogen levels (# ppm) are adequate.'') \<and>
      filter (\<lambda>a. getitem a ''type'' = Inr ''nitrogen'') acts = [] \<and>
      getitem r ''phosphorus_recommendation'' = Inr (Str ''Phosphorus levels (# ppm) are sufficient.'') \<and>
      filter (\<lambda>a. getitem a ''type'' = Inr ''phosphorus'') acts = [] \<and>
      getitem r ''potassium_recommendation'' = Inr (Str ''Potassium levels (# ppm) are adequate.'') \<and>
      filter (\<lambda>a. getitem a ''type'' = Inr ''potassium'') acts = []) \<and>
   (\<exists>r acts. generate_fertilizer_recommendations (\<lambda>x. ''#'')
        (soil_with (PyFloat 5) (PyInt 50) (PyFloat 50) (PyFloat 300)) = Inr r \<and>
      getitem r ''actions'' = Inr (Actions acts) \<and>
      getitem r ''nitrogen_recommendation'' = Inr (Str ''Nitrogen levels (50 ppm) are adequate.'') \<and>
      filter (\<lambda>a. getitem a ''type'' = Inr ''nitrogen'') acts = [] \<and>
      getitem r ''phosphorus_recommendation'' = Inr (Str ''Phosphorus levels (# ppm) are sufficient.'') \<and>
      filter (\<lambda>a. getitem a ''type'' = Inr ''phosphorus'') acts = [] \<and>
      getitem r ''potassium_recommendation'' = Inr (Str ''Potassium levels (# ppm) are adequate.'') \<and>
      filter (\<lambda>a. getitem a ''type'' = Inr ''potassium'') acts = [])"
proof (intro conjI)
  show "\<exists>r acts. generate_fertilizer_recommendations (\<lambda>x. ''#'')
        (soil_with (PyFloat 5) (PyFloat 20) (PyFloat 15) (PyFloat 100)) = Inr r \<and>
      getitem r ''actions'' = Inr (Actions acts) \<and>
      getitem r ''nitrogen_recommendation'' = Inr (Str ''Nitrogen levels (# ppm) are adequate.'') \<and>
      filter (\<lambda>a. getitem a ''type'' = Inr ''nitrogen'') acts = [] \<and>
      getitem r ''phosphorus_recommendation'' = Inr (Str ''Phosphorus levels (# ppm) are sufficient.'') \<and>
      filter (\<lambda>a. getitem a ''type'' = Inr ''phosphorus'') acts = [] \<and>
      getitem r ''potassium_recommendation'' = Inr (Str ''Potassium levels (# ppm) are adequate.'') \<and>
      filter (\<lambda>a. getitem a ''type'' = Inr ''potassium'') acts = []"
    using adequate_band_emits_no_action [of "\<lambda>x. ''#''"
        "soil_with (PyFloat 5) (PyFloat 20) (PyFloat 15) (PyFloat 100)"]
    by (simp add: soil_with_fields num_str_def)
  show "\<exists>r acts. generate_fertilizer_recommendations (\<lambda>x. ''#'')
        (soil_with (PyFloat 5) (PyInt 50) (PyFloat 50) (PyFloat 300)) = Inr r \<and>
      getitem r ''actions'' = Inr (Actions acts) \<and>
      getitem r ''nitrogen_recommendation'' = Inr (Str ''Nitrogen levels (50 ppm) are adequate.'') \<and>
      filter (\<lambda>a. getitem a ''type'' = Inr ''nitrogen'') acts = [] \<and>
      getitem r ''phosphorus_recommendation'' = Inr (Str ''Phosphorus levels (# ppm) are sufficient.'') \<and>
      filter (\<lambda>a. getitem a ''type'' = Inr ''phosphorus'') acts = [] \<and>
      getitem r ''potassium_recommendation'' = Inr (Str ''Potassium levels (# ppm) are adequate.'') \<and>
      filter (\<lambda>a. getitem a ''type'' = Inr ''potassium'') acts = []"
    using adequate_band_emits_no_action [of "\<lambda>x. ''#''"
        "soil_with (PyFloat 5) (PyInt 50) (PyFloat 50) (PyFloat 300)"]
    by (simp add: soil_with_fields num_str_def str_int_def digits.simps digit_char_def)
qed

text \<open>
  Claim C7 speaks of records that agree on the four measurements. Two measurements that
  are equal as numbers need not print the same: the floats \<^verbatim>\<open>0.0\<close> and \<^verbatim>\<open>-0.0\<close> are equal,
  both pass \<^verbatim>\<open>validate_soil_test_data\<close>, and the nitrogen message of the first reads
  \<^verbatim>\<open>(0.0 ppm)\<close> where that of the second reads \<^verbatim>\<open>(-0.0 ppm)\<close>. So two records with equal
  measurements can get different results, whatever the digits of a float are.
\<close>

theorem equal_measurements_print_differently:
  "num_val (PyFloat 0) = num_val PyNegZero \<and>
   (\<forall>float_str.
      generate_fertilizer_recommendations float_str
        (soil_with (PyFloat 6.5) (PyFloat 0) (PyFloat 30) (PyFloat 200)) \<noteq>
      generate_fertilizer_recommendations float_str
        (soil_with (PyFloat 6.5) PyNegZero (PyFloat 30) (PyFloat 200)))"
  by (simp add: generate_normal_form rec_dict_inj nitrogen_message_eq soil_with_fields
        num_str_def append_neq_Cons_append)

text \<open>
  Claim C7, amended. The engine reads only the four measurements. Two soil tests whose
  ph, nitrogen, phosphorus and potassium are the same number objects (same type, same
  sign of zero), whatever their location, coordinates, notes, test date or id, get the
  same result, in every field and in the order of the actions. Two soil tests whose
  measurements are only equal as numbers get the same overall text, the same priority
  and the same actions in the same order; their four recommendation messages can differ
  in the printed number.
\<close>

theorem engine_reads_only_measurements:
  "(ph a = ph b \<and> nitrogen a = nitrogen b \<and> phosphorus a = phosphorus b \<and>
    potassium a = potassium b \<longrightarrow>
      generate_fertilizer_recommendations float_str a =
      generate_fertilizer_recommendations float_str b) \<and>
   (num_val (ph a) = num_val (ph b) \<and> num_val (nitrogen a) = num_val (nitrogen b) \<and>
    num_val (phosphorus a) = num_val (phosphorus b) \<and>
    num_val (potassium a) = num_val (potassium b) \<longrightarrow>
      (\<exists>ra rb overall priority acts.
         generate_fertilizer_recommendations float_str a = Inr ra \<and>
         generate_fertilizer_recommendations float_str b = Inr rb \<and>
         getitem ra ''overall'' = Inr (Str overall) \<and>
         getitem rb ''overall'' = Inr (Str overall) \<and>
         getitem ra ''priority'' = Inr (Str priority) \<and>
         getitem rb ''priority'' = Inr (Str priority) \<and>
         getitem ra ''actions'' = Inr (Actions acts) \<and>
         getitem rb ''actions'' = Inr (Actions acts)))"
proof (intro conjI impI)
  assume h: "ph a = ph b \<and> nitrogen a = nitrogen b \<and> phosphorus a = phosphorus b \<and>
    potassium a = potassium b"
  have 1: "ph_section float_str a = ph_section float_str b"
    unfolding ph_section_def conjunct1 [OF h] ..
  have 2: "nitrogen_section float_str a = nitrogen_section float_str b"
    unfolding nitrogen_section_def conjunct1 [OF conjunct2 [OF h]] ..
  have 3: "phosphorus_section float_str a = phosphorus_section float_str b"
    unfolding phosphorus_section_def conjunct1 [OF conjunct2 [OF conjunct2 [OF h]]] ..
  have 4: "potassium_section float_str a = potassium_section float_str b"
    unfolding potassium_section_def conjunct2 [OF conjunct2 [OF conjunct2 [OF h]]] ..
  show "generate_fertilizer_recommendations float_str a =
        generate_fertilizer_recommendations float_str b"
    unfolding generate_fertilizer_recommendations_def 1 2 3 4 ..
next
  assume h: "num_val (ph a) = num_val (ph b) \<and> num_val (nitrogen a) = num_val (nitrogen b) \<and>
    num_val (phosphorus a) = num_val (phosphorus b) \<and>
    num_val (potassium a) = num_val (potassium b)"
  then have e: "emitted a = emitted b" by (intro emitted_cong) simp_all
  show "\<exists>ra rb overall priority acts.
         generate_fertilizer_recommendations float_str a = Inr ra \<and>
         generate_fertilizer_recommendations float_str b = Inr rb \<and>
         getitem ra ''overall'' = Inr (Str overall) \<and>
         getitem rb ''overall'' = Inr (Str overall) \<and>
         getitem ra ''priority'' = Inr (Str priority) \<and>
         getitem rb ''priority'' = Inr (Str priority) \<and>
         getitem ra ''actions'' = Inr (Actions acts) \<and>
         getitem rb ''actions'' = Inr (Actions acts)"
    by (simp add: generate_normal_form getitem_rec_dict e)
qed

theorem engine_reads_only_measurements_witness:
  "soil_a \<noteq> soil_b \<and>
   generate_fertilizer_recommendations (\<lambda>x. ''#'') soil_a =
   generate_fertilizer_recommendations (\<lambda>x. ''#'') soil_b \<and>
   (\<exists>ra rb overall priority acts.
      generate_fertilizer_recommendations (\<lambda>x. ''#'')
        (soil_with (PyFloat 6.5) (PyFloat 0) (PyFloat 30) (PyFloat 200)) = Inr ra \<and>
      generate_fertilizer_recommendations (\<lambda>x. ''#'')
        (soil_with (PyFloat 6.5) PyNegZero (PyFloat 30) (PyFloat 200)) = Inr rb \<and>
      getitem ra ''overall'' = Inr (Str overall) \<and>
      getitem rb ''overall'' = Inr (Str overall) \<and>
      getitem ra ''priority'' = Inr (Str priority) \<and>
      getitem rb ''priority'' = Inr (Str priority) \<and>
      getitem ra ''actions'' = Inr (Actions acts) \<and>
      getitem rb ''actions'' = Inr (Actions acts))"
proof (intro conjI)
  show "soil_a \<noteq> soil_b" by (simp add: soil_a_def soil_b_def)
  show "generate_fertilizer_recommendations (\<lambda>x. ''#'') soil_a =
        generate_fertilizer_recommendations (\<lambda>x. ''#'') soil_b"
    using engine_reads_only_measurements [of soil_a soil_b "\<lambda>x. ''#''"]
    by (simp add: soil_a_def soil_b_def)
  show "\<exists>ra rb overall priority acts.
      generate_fertilizer_recommendations (\<lambda>x. ''#'')
        (soil_with (PyFloat 6.5) (PyFloat 0) (PyFloat 30) (PyFloat 200)) = Inr ra \<and>
      generate_fertilizer_recommendations (\<lambda>x. ''#'')
        (soil_with (PyFloat 6.5) PyNegZero (PyFloat 30) (PyFloat 200)) = Inr rb \<and>
      getitem ra ''overall'' = Inr (Str overall) \<and>
      getitem rb ''overall'' = Inr (Str overall) \<and>
      getitem ra ''priority'' = Inr (Str priority) \<and>
      getitem rb ''priority'' = Inr (Str priority) \<and>
      getitem ra ''actions'' = Inr (Actions acts) \<and>
      getitem rb ''actions'' = Inr (Actions acts)"
    using engine_reads_only_measurements
      [of "soil_with (PyFloat 6.5) (PyFloat 0) (PyFloat 30) (PyFloat 200)"
          "soil_with (PyFloat 6.5) PyNegZero (PyFloat 30) (PyFloat 200)" "\<lambda>x. ''#''"]
    by (simp add: soil_with_fields)
qed

text \<open>
  Claim C8. Dosage monotonicity: when \<open>ph1 \<le> ph2\<close>, the lime requirement at \<open>ph1\<close> is at
  least the one at \<open>ph2\<close>, and the sulfur requirement at \<open>ph1\<close> is at most the one at
  \<open>ph2\<close>.
\<close>

theorem dosage_monotone:
  "ph1 \<le> ph2 \<Longrightarrow>
     calculate_lime_requirement ph2 \<le> calculate_lime_requirement ph1 \<and>
     calculate_sulfur_requirement ph1 \<le> calculate_sulfur_requirement ph2"
  by (simp add: calculate_lime_requirement_def calculate_sulfur_requirement_def)

theorem dosage_monotone_witness:
  "(5.2 :: real) \<le> 7.8 \<and>
   calculate_lime_requirement 7.8 \<le> calculate_lime_requirement 5.2 \<and>
   calculate_sulfur_requirement 5.2 \<le> calculate_sulfur_requirement 7.8"
  using dosage_monotone [of "5.2" "7.8"] by simp

text \<open>
  Claim C9. For every input, the health score is the sum of the four contributions, each
  1.0 in the tightest band, 0.7 in the next, 0.4 in the widest and 0 outside all bands,
  divided by 4 and multiplied by 100; the status is Excellent when that percentage is at
  least 80, Good when at least 60, Fair when at least 40, and Poor otherwise. The
  rounding to one decimal leaves the percentage unchanged, since it is a multiple of
  2.5.
\<close>

theorem health_score_formula:
  "\<exists>percentage.
     percentage =
       (contribution (6, 7) (5.5, 7.5) (5, 8) (num_val (ph t)) +
        contribution (20, 50) (15, 60) (10, 80) (num_val (nitrogen t)) +
        contribution (15, 50) (10, 60) (5, 80) (num_val (phosphorus t)) +
        contribution (100, 300) (75, 400) (50, 500) (num_val (potassium t))) / 4 * 100 \<and>
     map fst (analyze_soil_health t) = [''score'', ''status'', ''description''] \<and>
     getitem (analyze_soil_health t) ''score'' = Inr (Num percentage) \<and>
     getitem (analyze_soil_health t) ''status'' = Inr (Str (status_of percentage))"
proof -
  have k: "map fst (analyze_soil_health t) = [''score'', ''status'', ''description'']"
    by (simp add: analyze_soil_health_def Let_def split: prod.splits)
  have s: "getitem (analyze_soil_health t) ''score'' = Inr (Num (health_percentage t))"
    by (simp add: analyze_soil_health_def Let_def getitem_Cons py_round1_health_percentage
          split: prod.splits)
  have st: "getitem (analyze_soil_health t) ''status'' = Inr (Str (status_of (health_percentage t)))"
    by (simp add: analyze_soil_health_def Let_def getitem_Cons status_of_def split: prod.splits)
  note e = health_percentage_eq [of t]
  from e k s st show ?thesis by (intro exI conjI)
qed

theorem health_score_formula_witness:
  "getitem (analyze_soil_health soil_a) ''score'' = Inr (Num 55) \<and>
   getitem (analyze_soil_health soil_a) ''status'' = Inr (Str ''Fair'') \<and>
   getitem (analyze_soil_health (soil_with (PyFloat 6.5) (PyInt 30) (PyFloat 30) (PyFloat 200)))
     ''score'' = Inr (Num 100) \<and>
   getitem (analyze_soil_health (soil_with (PyFloat 6.5) (PyInt 30) (PyFloat 30) (PyFloat 200)))
     ''status'' = Inr (Str ''Excellent'')"
  using health_score_formula [of soil_a]
    health_score_formula [of "soil_with (PyFloat 6.5) (PyInt 30) (PyFloat 30) (PyFloat 200)"]
  by (simp add: soil_a_def soil_with_fields contribution_def status_of_def)

text \<open>
  Claim C10. For every input with pH below 6.0, the dosage of the emitted lime action is
  one of 8, 12 and 15: the else-branch value 5 of \<^verbatim>\<open>calculate_lime_requirement\<close> is not
  reached from the engine. For every input with pH above 7.5, the dosage of the emitted
  sulfur action is one of 6 and 10: the else-branch value 3 of
  \<^verbatim>\<open>calculate_sulfur_requirement\<close> is not reached from the engine.
\<close>

theorem engine_dosage_ranges:
  "\<exists>r acts. generate_fertilizer_recommendations float_str t = Inr r \<and>
     getitem r ''actions'' = Inr (Actions acts) \<and>
     (num_val (ph t) < 6 \<longrightarrow>
        calculate_lime_requirement (num_val (ph t)) \<in> {8, 12, 15} \<and>
        (\<exists>amount \<in> {''8 lbs per 1000 sq ft'', ''12 lbs per 1000 sq ft'', ''15 lbs per 1000 sq ft''}.
           filter (\<lambda>a. getitem a ''type'' = Inr ''pH adjustment'') acts =
             [[(''type'', ''pH adjustment''), (''action'', ''Apply agricultural lime''),
               (''amount'', amount), (''priority'', ''high'')]])) \<and>
     (num_val (ph t) > 7.5 \<longrightarrow>
        calculate_sulfur_requirement (num_val (ph t)) \<in> {6, 10} \<and>
        (\<exists>amount \<in> {''6 lbs per 1000 sq ft'', ''10 lbs per 1000 sq ft''}.
           filter (\<lambda>a. getitem a ''type'' = Inr ''pH adjustment'') acts =
             [[(''type'', ''pH adjustment''), (''action'', ''Apply elemental sulfur''),
               (''amount'', amount), (''priority'', ''high'')]]))"
proof -
  from generate_fields [of float_str t] obtain r where
    r: "generate_fertilizer_recommendations float_str t = Inr r"
    and a: "getitem r ''actions'' = Inr (Actions (emitted t))"
    by (elim exE conjE)
  have lime: "num_val (ph t) < 6 \<longrightarrow>
        calculate_lime_requirement (num_val (ph t)) \<in> {8, 12, 15} \<and>
        (\<exists>amount \<in> {''8 lbs per 1000 sq ft'', ''12 lbs per 1000 sq ft'', ''15 lbs per 1000 sq ft''}.
           filter (\<lambda>a. getitem a ''type'' = Inr ''pH adjustment'') (emitted t) =
             [[(''type'', ''pH adjustment''), (''action'', ''Apply agricultural lime''),
               (''amount'', amount), (''priority'', ''high'')]])"
    by (simp add: filter_type_emitted ph_actions_eq mk_action_def calculate_lime_requirement_def
          str_int_values)
  have sulfur: "num_val (ph t) > 7.5 \<longrightarrow>
        calculate_sulfur_requirement (num_val (ph t)) \<in> {6, 10} \<and>
        (\<exists>amount \<in> {''6 lbs per 1000 sq ft'', ''10 lbs per 1000 sq ft''}.
           filter (\<lambda>a. getitem a ''type'' = Inr ''pH adjustment'') (emitted t) =
             [[(''type'', ''pH adjustment''), (''action'', ''Apply elemental sulfur''),
               (''amount'', amount), (''priority'', ''high'')]])"
    by (simp add: filter_type_emitted ph_actions_eq mk_action_def calculate_sulfur_requirement_def
          str_int_values)
  from r a lime sulfur show ?thesis by (intro exI conjI)
qed

theorem engine_dosage_ranges_witness:
  "(\<exists>r acts. generate_fertilizer_recommendations (\<lambda>x. ''#'')
        (soil_with (PyFloat 5.2) (PyFloat 30) (PyFloat 30) (PyFloat 200)) = Inr r \<and>
      getitem r ''actions'' = Inr (Actions acts) \<and>
      calculate_lime_requirement 5.2 \<in> {8, 12, 15} \<and>
      (\<exists>amount \<in> {''8 lbs per 1000 sq ft'', ''12 lbs per 1000 sq ft'', ''15 lbs per 1000 sq ft''}.
         filter (\<lambda>a. getitem a ''type'' = Inr ''pH adjustment'') acts =
           [[(''type'', ''pH adjustment''), (''action'', ''Apply agricultural lime''),
             (''amount'', amount), (''priority'', ''high'')]])) \<and>
   (\<exists>r acts. generate_fertilizer_recommendations (\<lambda>x. ''#'')
        (soil_with (PyFloat 7.8) (PyFloat 30) (PyFloat 30) (PyFloat 200)) = Inr r \<and>
      getitem r ''actions'' = Inr (Actions acts) \<and>
      calculate_sulfur_requirement 7.8 \<in> {6, 10} \<and>
      (\<exists>amount \<in> {''6 lbs per 1000 sq ft'', ''10 lbs per 1000 sq ft''}.
         filter (\<lambda>a. getitem a ''type'' = Inr ''pH adjustment'') acts =
           [[(''type'', ''pH adjustment''), (''action'', ''Apply elemental sulfur''),
             (''amount'', amount), (''priority'', ''high'')]]))"
proof (intro conjI)
  show "\<exists>r acts. generate_fertilizer_recommendations (\<lambda>x. ''#'')
        (soil_with (PyFloat 5.2) (PyFloat 30) (PyFloat 30) (PyFloat 200)) = Inr r \<and>
      getitem r ''actions'' = Inr (Actions acts) \<and>
      calculate_lime_requirement 5.2 \<in> {8, 12, 15} \<and>
      (\<exists>amount \<in> {''8 lbs per 1000 sq ft'', ''12 lbs per 1000 sq ft'', ''15 lbs per 1000 sq ft''}.
         filter (\<lambda>a. getitem a ''type'' = Inr ''pH adjustment'') acts =
           [[(''type'', ''pH adjustment''), (''action'', ''Apply agricultural lime''),
             (''amount'', amount), (''priority'', ''high'')]])"
    using engine_dosage_ranges [of "\<lambda>x. ''#''"
        "soil_with (PyFloat 5.2) (PyFloat 30) (PyFloat 30) (PyFloat 200)"]
    by (simp add: soil_with_fields)
  show "\<exists>r acts. generate_fertilizer_recommendations (\<lambda>x. ''#'')
        (soil_with (PyFloat 7.8) (PyFloat 30) (PyFloat 30) (PyFloat 200)) = Inr r \<and>
      getitem r ''actions'' = Inr (Actions acts) \<and>
      calculate_sulfur_requirement 7.8 \<in> {6, 10} \<and>
      (\<exists>amount \<in> {''6 lbs per 1000 sq ft'', ''10 lbs per 1000 sq ft''}.
         filter (\<lambda>a. getitem a ''type'' = Inr ''pH adjustment'') acts =
           [[(''type'', ''pH adjustment''), (''action'', ''Apply elemental sulfur''),
             (''amount'', amount), (''priority'', ''high'')]])"
    using engine_dosage_ranges [of "\<lambda>x. ''#''"
        "soil_with (PyFloat 7.8) (PyFloat 30) (PyFloat 30) (PyFloat 200)"]
    by (simp add: soil_with_fields)
qed

end
